theory Spec2Isabelle
  imports Main
begin

section \<open>Scaled integer geometry of the guitar icon\<close>

text \<open>
  The renderer \<^verbatim>\<open>create_guitar_icon(size)\<close> of \<^verbatim>\<open>generate_icons.py\<close> computes
  \<^verbatim>\<open>scale = size / 512\<close> as a binary64 float and every dimension as
  \<^verbatim>\<open>int(k * scale)\<close> for an integer constant \<open>k\<close>.  Dividing by \<open>512 = 2^9\<close> is exact,
  and the product \<open>k * scale\<close> is exact as long as \<open>\<bar>k\<bar> * size < 2^53\<close>; the constants of
  the program satisfy \<open>\<bar>k\<bar> \<le> 280\<close>, so this covers every canvas that can be allocated.
  Python's \<^verbatim>\<open>int()\<close> truncates towards zero.  The model therefore computes
  \<^verbatim>\<open>int(k * scale)\<close> in exact integer arithmetic, truncating towards zero; Python's
  \<^verbatim>\<open>//\<close> on integers is floor division, which is \<open>div\<close> on \<open>int\<close>.
\<close>

definition int_scaled :: "int \<Rightarrow> int \<Rightarrow> int" where
  "int_scaled k sz =
     (if 0 \<le> k * sz then (k * sz) div 512 else - ((- (k * sz)) div 512))"

type_synonym rgba = "nat \<times> nat \<times> nat \<times> nat"
type_synonym box = "int \<times> int \<times> int \<times> int"

text \<open>The three drawing calls of \<^verbatim>\<open>ImageDraw\<close> that the program issues, with their arguments.\<close>

datatype shape =
    Ellipse box rgba
  | Rectangle box rgba
  | Rounded_rectangle box int rgba

fun shape_box :: "shape \<Rightarrow> box" where
  "shape_box (Ellipse xy fill) = xy"
| "shape_box (Rectangle xy fill) = xy"
| "shape_box (Rounded_rectangle xy radius fill) = xy"

fun shape_fill :: "shape \<Rightarrow> rgba" where
  "shape_fill (Ellipse xy fill) = fill"
| "shape_fill (Rectangle xy fill) = fill"
| "shape_fill (Rounded_rectangle xy radius fill) = fill"

fun box_ordered :: "box \<Rightarrow> bool" where
  "box_ordered (x0, y0, x1, y1) = (x0 \<le> x1 \<and> y0 \<le> y1)"

subsection \<open>The drawing calls of \<^verbatim>\<open>create_guitar_icon\<close>, in source order\<close>

definition background :: "int \<Rightarrow> shape" where
  "background sz =
     (let margin = int_scaled 20 sz;
          bg_size = sz - 2 * margin
      in Ellipse (margin, margin, margin + bg_size, margin + bg_size) (102, 126, 234, 255))"

definition body :: "int \<Rightarrow> shape" where
  "body sz =
     (let center_x = sz div 2; center_y = sz div 2;
          guitar_width = int_scaled 200 sz;
          guitar_height = int_scaled 120 sz
      in Ellipse (center_x - guitar_width div 2,
                  center_y - guitar_height div 2 + int_scaled 40 sz,
                  center_x + guitar_width div 2,
                  center_y + guitar_height div 2 + int_scaled 40 sz)
                 (255, 255, 255, 240))"

definition neck :: "int \<Rightarrow> shape" where
  "neck sz =
     (let center_x = sz div 2; center_y = sz div 2;
          neck_width = int_scaled 200 sz;
          neck_height = int_scaled 30 sz
      in Rounded_rectangle (center_x - neck_width div 2,
                            center_y - int_scaled 160 sz,
                            center_x + neck_width div 2,
                            center_y - int_scaled 160 sz + neck_height)
                           (int_scaled 14 sz) (255, 255, 255, 240))"

definition head :: "int \<Rightarrow> shape" where
  "head sz =
     (let center_x = sz div 2; center_y = sz div 2;
          head_width = int_scaled 280 sz;
          head_height = int_scaled 60 sz
      in Rounded_rectangle (center_x - head_width div 2,
                            center_y - int_scaled 200 sz,
                            center_x + head_width div 2,
                            center_y - int_scaled 200 sz + head_height)
                           (int_scaled 30 sz) (255, 255, 255, 240))"

definition tuner_positions :: "(int \<times> int) list" where
  "tuner_positions = [(-100, -170), (-50, -170), (50, -170), (100, -170)]"

definition tuner :: "int \<Rightarrow> int \<times> int \<Rightarrow> shape" where
  "tuner sz pos =
     (case pos of (x, y) \<Rightarrow>
      let center_x = sz div 2; center_y = sz div 2;
          tuner_size = int_scaled 12 sz;
          tuner_x = center_x + int_scaled x sz;
          tuner_y = center_y + int_scaled y sz
      in Ellipse (tuner_x - tuner_size div 2, tuner_y - tuner_size div 2,
                  tuner_x + tuner_size div 2, tuner_y + tuner_size div 2)
                 (102, 126, 234, 255))"

definition string_positions :: "int list" where
  "string_positions = [-100, -50, 50, 100]"

definition guitar_string :: "int \<Rightarrow> int \<Rightarrow> shape" where
  "guitar_string sz x =
     (let center_x = sz div 2; center_y = sz div 2;
          string_width = int_scaled 4 sz;
          string_x = center_x + int_scaled x sz;
          start_y = center_y - int_scaled 140 sz;
          end_y = center_y + int_scaled 40 sz
      in Rectangle (string_x - string_width div 2, start_y,
                    string_x + string_width div 2, end_y)
                   (102, 126, 234, 200))"

definition sound_hole :: "int \<Rightarrow> shape" where
  "sound_hole sz =
     (let center_x = sz div 2; center_y = sz div 2;
          sound_hole_radius = int_scaled 40 sz
      in Ellipse (center_x - sound_hole_radius,
                  center_y - sound_hole_radius + int_scaled 40 sz,
                  center_x + sound_hole_radius,
                  center_y + sound_hole_radius + int_scaled 40 sz)
                 (255, 107, 107, 255))"

definition sound_hole_inner :: "int \<Rightarrow> shape" where
  "sound_hole_inner sz =
     (let center_x = sz div 2; center_y = sz div 2;
          inner_radius = int_scaled 30 sz
      in Ellipse (center_x - inner_radius,
                  center_y - inner_radius + int_scaled 40 sz,
                  center_x + inner_radius,
                  center_y + inner_radius + int_scaled 40 sz)
                 (255, 255, 255, 255))"

definition note_positions :: "(int \<times> int) list" where
  "note_positions = [(-60, -80), (60, -80)]"

definition note_head :: "int \<Rightarrow> int \<times> int \<Rightarrow> shape" where
  "note_head sz pos =
     (case pos of (x, y) \<Rightarrow>
      let center_x = sz div 2; center_y = sz div 2;
          note_size = int_scaled 16 sz;
          note_x = center_x + int_scaled x sz;
          note_y = center_y + int_scaled y sz
      in Ellipse (note_x - note_size div 2, note_y - note_size div 2,
                  note_x + note_size div 2, note_y + note_size div 2)
                 (255, 107, 107, 255))"

definition note_stem :: "int \<Rightarrow> int \<times> int \<Rightarrow> shape" where
  "note_stem sz pos =
     (case pos of (x, y) \<Rightarrow>
      let center_x = sz div 2; center_y = sz div 2;
          note_size = int_scaled 16 sz;
          note_x = center_x + int_scaled x sz;
          note_y = center_y + int_scaled y sz
      in Rectangle (note_x + note_size div 2 - 2, note_y - note_size,
                    note_x + note_size div 2 + 2, note_y + note_size div 2)
                   (255, 107, 107, 255))"

definition guitar_shapes :: "int \<Rightarrow> shape list" where
  "guitar_shapes sz =
     [background sz, body sz, neck sz, head sz]
     @ map (tuner sz) tuner_positions
     @ map (guitar_string sz) string_positions
     @ [sound_hole sz, sound_hole_inner sz]
     @ concat (map (\<lambda>pos. [note_head sz pos, note_stem sz pos]) note_positions)"

section \<open>The raster canvas\<close>

text \<open>
  A canvas is Pillow's in-memory \<^verbatim>\<open>RGBA\<close> image: its width, its height and one
  \<open>(r, g, b, a)\<close> value per pixel.  Outside the canvas \<open>im_data\<close> keeps the colour the
  canvas was created with, so that two canvases are equal exactly when they have the
  same dimensions and are pixel-identical.
\<close>

record image =
  im_width :: int
  im_height :: int
  im_data :: "int \<times> int \<Rightarrow> rgba"

fun inside :: "image \<Rightarrow> int \<times> int \<Rightarrow> bool" where
  "inside im (x, y) = (0 \<le> x \<and> x < im_width im \<and> 0 \<le> y \<and> y < im_height im)"

text \<open>\<^verbatim>\<open>Image.getpixel\<close> raises \<^verbatim>\<open>IndexError\<close> outside the canvas: \<open>None\<close>.\<close>

definition getpixel :: "image \<Rightarrow> int \<times> int \<Rightarrow> rgba option" where
  "getpixel im p = (if inside im p then Some (im_data im p) else None)"

text \<open>
  The rasteriser belongs to the imaging library Pillow, not to the program: the program
  calls \<^verbatim>\<open>draw.ellipse\<close>, \<^verbatim>\<open>draw.rounded_rectangle\<close> and \<^verbatim>\<open>draw.rectangle\<close> and does not
  say which pixels they fill.  A filled rectangle covers its bounding box, both corners
  included.  Which pixels of the box a filled ellipse or a filled rounded rectangle
  covers is the library's choice at the edge, so the model takes these two fills as a
  parameter \<open>lib\<close> of the renderer.
\<close>

fun rectangle_covers :: "box \<Rightarrow> int \<times> int \<Rightarrow> bool" where
  "rectangle_covers (x0, y0, x1, y1) (x, y) = (x0 \<le> x \<and> x \<le> x1 \<and> y0 \<le> y \<and> y \<le> y1)"

record library =
  ellipse_fill :: "box \<Rightarrow> int \<times> int \<Rightarrow> bool"
  rounded_rectangle_fill :: "box \<Rightarrow> int \<Rightarrow> int \<times> int \<Rightarrow> bool"

fun shape_covers :: "library \<Rightarrow> shape \<Rightarrow> int \<times> int \<Rightarrow> bool" where
  "shape_covers lib (Ellipse xy fill) p = ellipse_fill lib xy p"
| "shape_covers lib (Rectangle xy fill) p = rectangle_covers xy p"
| "shape_covers lib (Rounded_rectangle xy radius fill) p = rounded_rectangle_fill lib xy radius p"

text \<open>
  What the claims about single pixels use of the library, and no more.  \<open>confined\<close>: a
  fill stays inside the bounding box of its shape.  \<open>axes_filled\<close>: in a box of more than
  one pixel with \<open>x1 - x0\<close> and \<open>y1 - y0\<close> even, which has a middle column and a middle
  row, a filled ellipse covers the pixels of the box on that column and on that row.
  Every circle the renderer draws around a centre has such a box.
\<close>

definition confined :: "library \<Rightarrow> bool" where
  "confined lib =
     ((\<forall>xy p. ellipse_fill lib xy p \<longrightarrow> rectangle_covers xy p) \<and>
      (\<forall>xy radius p. rounded_rectangle_fill lib xy radius p \<longrightarrow> rectangle_covers xy p))"

definition axes_filled :: "library \<Rightarrow> bool" where
  "axes_filled lib =
     (\<forall>x0 y0 x1 y1 x y.
        rectangle_covers (x0, y0, x1, y1) (x, y) \<and> even (x1 - x0) \<and> even (y1 - y0) \<and>
        (x0 < x1 \<or> y0 < y1) \<and> (2 * x = x0 + x1 \<or> 2 * y = y0 + y1)
        \<longrightarrow> ellipse_fill lib (x0, y0, x1, y1) (x, y))"

text \<open>
  A library that meets both: its ellipse is the closed ellipse inscribed in a box of
  more than one pixel (the test is written in doubled coordinates, so that it stays in
  the integers), and its rounded rectangle has square corners.  It stands for no
  release of Pillow, whose ellipses are a little wider at the edge; it shows that the
  two assumptions can be met, and it runs the renderer on concrete inputs.
\<close>

fun inscribed_ellipse :: "box \<Rightarrow> int \<times> int \<Rightarrow> bool" where
  "inscribed_ellipse (x0, y0, x1, y1) (x, y) =
     (rectangle_covers (x0, y0, x1, y1) (x, y) \<and> (x0 < x1 \<or> y0 < y1) \<and>
      (2 * x - x0 - x1)\<^sup>2 * (y1 - y0)\<^sup>2 + (2 * y - y0 - y1)\<^sup>2 * (x1 - x0)\<^sup>2
        \<le> (x1 - x0)\<^sup>2 * (y1 - y0)\<^sup>2)"

definition example_library :: library where
  "example_library =
     \<lparr>ellipse_fill = inscribed_ellipse,
      rounded_rectangle_fill = (\<lambda>xy radius p. rectangle_covers xy p)\<rparr>"

text \<open>
  \<^verbatim>\<open>ImageDraw.Draw(img)\<close> on an \<^verbatim>\<open>RGBA\<close> image writes the fill into every covered pixel
  of the canvas, alpha included; pixels of the shape outside the canvas are clipped.
\<close>

definition paint :: "library \<Rightarrow> shape \<Rightarrow> image \<Rightarrow> image" where
  "paint lib s im =
     im\<lparr>im_data := (\<lambda>p. if inside im p \<and> shape_covers lib s p then shape_fill s else im_data im p)\<rparr>"

section \<open>The world: image objects, file system, console\<close>

type_synonym path = "string list"

datatype filedata = Encoded string image | Other_data "nat list"

datatype node = Dir | File filedata

datatype console_line = Generating string int | All_done

datatype event = Printed console_line | Made_dir path | Saved path

datatype error =
    ValueError | FileExistsError | FileNotFoundError | NotADirectoryError | IsADirectoryError

text \<open>
  \<open>images\<close> is the store of image objects (a reference is an index into it), \<open>files\<close>
  the file system below the working directory, keyed by the list of path components, and
  \<open>trace\<close> the program's effects on the outside, in the order they happened.
\<close>

record world =
  images :: "image list"
  files :: "path \<Rightarrow> node option"
  trace :: "event list"

type_synonym 'a action = "world \<Rightarrow> (error + 'a) \<times> world"

text \<open>Sequencing: an exception ends the run, keeping the world as it was when raised.\<close>

definition and_then :: "'a action \<Rightarrow> ('a \<Rightarrow> 'b action) \<Rightarrow> 'b action" where
  "and_then m f w = (case m w of (Inl e, w') \<Rightarrow> (Inl e, w') | (Inr x, w') \<Rightarrow> f x w')"

definition return_value :: "'a \<Rightarrow> 'a action" where
  "return_value x w = (Inr x, w)"

fun for_each :: "'a list \<Rightarrow> ('a \<Rightarrow> unit action) \<Rightarrow> unit action" where
  "for_each [] f w = (Inr (), w)"
| "for_each (x # xs) f w =
     (case f x w of (Inl e, w') \<Rightarrow> (Inl e, w') | (Inr u, w') \<Rightarrow> for_each xs f w')"

subsection \<open>The renderer\<close>

text \<open>
  \<^verbatim>\<open>Image.new('RGBA', (w, h), color)\<close> refuses a negative dimension.  Resource limits (a
  canvas too large to allocate) are outside the model.
\<close>

definition Image_new :: "int \<times> int \<Rightarrow> rgba \<Rightarrow> nat action" where
  "Image_new dims color w =
     (case dims of (wd, ht) \<Rightarrow>
      if wd < 0 \<or> ht < 0 then (Inl ValueError, w)
      else (Inr (length (images w)),
            w\<lparr>images := images w @ [\<lparr>im_width = wd, im_height = ht, im_data = (\<lambda>p. color)\<rparr>]\<rparr>))"

text \<open>
  \<^verbatim>\<open>draw.ellipse\<close>, \<^verbatim>\<open>draw.rectangle\<close> and \<^verbatim>\<open>draw.rounded_rectangle\<close> raise
  \<^verbatim>\<open>ValueError\<close> when \<open>x1 < x0\<close> or \<open>y1 < y0\<close>; otherwise they mutate the image behind
  the drawing handle.
\<close>

definition draw_shape :: "library \<Rightarrow> nat \<Rightarrow> shape \<Rightarrow> unit action" where
  "draw_shape lib draw s w =
     (if \<not> box_ordered (shape_box s) then (Inl ValueError, w)
      else (Inr (), w\<lparr>images := (images w)[draw := paint lib s (images w ! draw)]\<rparr>))"

definition create_guitar_icon :: "library \<Rightarrow> int \<Rightarrow> nat action" where
  "create_guitar_icon lib sz =
     and_then (Image_new (sz, sz) (0, 0, 0, 0)) (\<lambda>img.
     and_then (for_each (guitar_shapes sz) (draw_shape lib img)) (\<lambda>u.
     return_value img))"

text \<open>
  The canvas the renderer returns, as a value: the transparent canvas with the drawing
  calls painted over it in order.  \<open>top_fill\<close> reads one pixel of it: the last shape
  drawn over a pixel decides its colour.
\<close>

definition rendered :: "library \<Rightarrow> int \<Rightarrow> image" where
  "rendered lib sz =
     foldl (\<lambda>im s. paint lib s im) \<lparr>im_width = sz, im_height = sz, im_data = (\<lambda>p. (0, 0, 0, 0))\<rparr>
       (guitar_shapes sz)"

fun top_fill :: "library \<Rightarrow> shape list \<Rightarrow> int \<times> int \<Rightarrow> rgba \<Rightarrow> rgba" where
  "top_fill lib [] p c = c"
| "top_fill lib (s # ss) p c = top_fill lib ss p (if shape_covers lib s p then shape_fill s else c)"

subsection \<open>File system and console\<close>

text \<open>
  A path resolves when each of its proper prefixes is a directory; the empty path is the
  working directory.  Entries of \<open>files\<close> below something that is not a directory are
  unreachable.
\<close>

fun resolves :: "(path \<Rightarrow> node option) \<Rightarrow> path \<Rightarrow> path \<Rightarrow> bool" where
  "resolves fs pre [] = True"
| "resolves fs pre (c # cs) = (fs (pre @ [c]) = Some Dir \<and> resolves fs (pre @ [c]) cs)"

definition lookup :: "(path \<Rightarrow> node option) \<Rightarrow> path \<Rightarrow> node option" where
  "lookup fs p =
     (if p = [] then Some Dir else if resolves fs [] (butlast p) then fs p else None)"

definition os_path_exists :: "path \<Rightarrow> world \<Rightarrow> bool" where
  "os_path_exists p w = (lookup (files w) p \<noteq> None)"

definition os_path_isdir :: "path \<Rightarrow> world \<Rightarrow> bool" where
  "os_path_isdir p w = (lookup (files w) p = Some Dir)"

definition os_path_join :: "path \<Rightarrow> string \<Rightarrow> path" where
  "os_path_join d name = d @ [name]"

text \<open>
  \<^verbatim>\<open>os.mkdir\<close> makes one directory, which is empty: in the flat table of files nothing
  is left below the new path.
\<close>

definition made_dir :: "path \<Rightarrow> world \<Rightarrow> world" where
  "made_dir p w =
     w\<lparr>files := (\<lambda>q. if q = p then Some Dir
                       else if take (length p) q = p then None
                       else files w q),
       trace := trace w @ [Made_dir p]\<rparr>"

definition os_mkdir :: "path \<Rightarrow> unit action" where
  "os_mkdir p w =
     (if p = [] then (Inl FileExistsError, w)
      else case lookup (files w) (butlast p) of
             None \<Rightarrow> (Inl FileNotFoundError, w)
           | Some (File d) \<Rightarrow> (Inl NotADirectoryError, w)
           | Some Dir \<Rightarrow>
               (case files w p of
                  Some n \<Rightarrow> (Inl FileExistsError, w)
                | None \<Rightarrow> (Inr (), made_dir p w)))"

text \<open>
  \<^verbatim>\<open>os.makedirs(name, exist_ok)\<close> of the standard library: it first makes the parent when
  that does not exist (ignoring a \<^verbatim>\<open>FileExistsError\<close> from there), then calls
  \<^verbatim>\<open>mkdir\<close>, and swallows its \<^verbatim>\<open>OSError\<close> only when \<open>exist_ok\<close> holds and the path
  is a directory.
\<close>

function makedirs :: "path \<Rightarrow> bool \<Rightarrow> unit action" where
  "makedirs name exist_ok w =
     (case (if butlast name \<noteq> [] \<and> \<not> os_path_exists (butlast name) w
            then (case makedirs (butlast name) exist_ok w of
                    (Inl FileExistsError, w') \<Rightarrow> (Inr (), w')
                  | (r, w') \<Rightarrow> (r, w'))
            else (Inr (), w)) of
        (Inl e, w1) \<Rightarrow> (Inl e, w1)
      | (Inr u, w1) \<Rightarrow>
          (case os_mkdir name w1 of
             (Inr u', w2) \<Rightarrow> (Inr u', w2)
           | (Inl e, w2) \<Rightarrow>
               if \<not> exist_ok \<or> \<not> os_path_isdir name w2 then (Inl e, w2) else (Inr (), w2)))"
  by pat_completeness auto
termination
proof (relation "measure (\<lambda>(name, exist_ok, w). length name)")
  fix name :: path and exist_ok :: bool and w :: world
  assume "butlast name \<noteq> [] \<and> \<not> os_path_exists (butlast name) w"
  then have "name \<noteq> []" by auto
  then show "((butlast name, exist_ok, w), (name, exist_ok, w))
               \<in> measure (\<lambda>(name, exist_ok, w). length name)"
    by simp
qed simp

declare makedirs.simps [simp del]

definition print_line :: "console_line \<Rightarrow> unit action" where
  "print_line l w = (Inr (), w\<lparr>trace := trace w @ [Printed l]\<rparr>)"

text \<open>
  \<^verbatim>\<open>icon.save(path, "PNG")\<close> opens the path for writing, which fails when its directory
  does not resolve or the path is itself a directory, and stores the encoded canvas.
\<close>

definition Image_save :: "nat \<Rightarrow> path \<Rightarrow> string \<Rightarrow> unit action" where
  "Image_save img p fmt w =
     (if p = [] then (Inl IsADirectoryError, w)
      else case lookup (files w) (butlast p) of
             None \<Rightarrow> (Inl FileNotFoundError, w)
           | Some (File d) \<Rightarrow> (Inl NotADirectoryError, w)
           | Some Dir \<Rightarrow>
               if files w p = Some Dir then (Inl IsADirectoryError, w)
               else (Inr (), w\<lparr>files := (files w)(p \<mapsto> File (Encoded fmt (images w ! img))),
                                 trace := trace w @ [Saved p]\<rparr>))"

subsection \<open>The batch driver\<close>

definition sizes :: "(int \<times> string) list" where
  "sizes =
     [(16, ''icon_16x16.png''),
      (32, ''icon_16x16@2x.png''),
      (32, ''icon_32x32.png''),
      (64, ''icon_32x32@2x.png''),
      (128, ''icon_128x128.png''),
      (256, ''icon_128x128@2x.png''),
      (256, ''icon_256x256.png''),
      (512, ''icon_256x256@2x.png''),
      (512, ''icon_512x512.png''),
      (1024, ''icon_512x512@2x.png'')]"

text \<open>The path \<^verbatim>\<open>"guitarPlayer/Assets.xcassets/AppIcon.appiconset"\<close>, split at its slashes.\<close>

definition output_dir :: path where
  "output_dir = [''guitarPlayer'', ''Assets.xcassets'', ''AppIcon.appiconset'']"

definition save_icon :: "library \<Rightarrow> int \<times> string \<Rightarrow> unit action" where
  "save_icon lib entry =
     (case entry of (sz, filename) \<Rightarrow>
      and_then (print_line (Generating filename sz)) (\<lambda>u.
      and_then (create_guitar_icon lib sz) (\<lambda>icon.
      Image_save icon (os_path_join output_dir filename) ''PNG'')))"

definition generate_icons :: "library \<Rightarrow> unit action" where
  "generate_icons lib =
     and_then (makedirs output_dir True) (\<lambda>u.
     and_then (for_each sizes (save_icon lib)) (\<lambda>u.
     print_line All_done))"

text \<open>The effect of \<^verbatim>\<open>makedirs\<close> on one component of the path, when it succeeds.\<close>

definition ensure_dir :: "path \<Rightarrow> world \<Rightarrow> world" where
  "ensure_dir p w = (if lookup (files w) p = None then made_dir p w else w)"

text \<open>
  A path that \<^verbatim>\<open>makedirs\<close> can pass: it is absent or a directory, not a file.
  \<open>dirs_made\<close> is the world once \<^verbatim>\<open>makedirs(output_dir, exist_ok=True)\<close> has returned.
\<close>

definition not_a_file :: "world \<Rightarrow> path \<Rightarrow> bool" where
  "not_a_file w p = (case lookup (files w) p of Some (File d) \<Rightarrow> False | _ \<Rightarrow> True)"

definition dirs_made :: "world \<Rightarrow> world" where
  "dirs_made w =
     ensure_dir output_dir (ensure_dir (take 2 output_dir) (ensure_dir (take 1 output_dir) w))"

text \<open>The effect of one successful pass of the loop, and the save events of a trace.\<close>

definition saved :: "library \<Rightarrow> int \<times> string \<Rightarrow> world \<Rightarrow> world" where
  "saved lib entry w =
     (case entry of (sz, filename) \<Rightarrow>
      w\<lparr>images := images w @ [rendered lib sz],
        files := (files w)(os_path_join output_dir filename \<mapsto>
                   File (Encoded ''PNG'' (rendered lib sz))),
        trace := trace w @ [Printed (Generating filename sz),
                            Saved (os_path_join output_dir filename)]\<rparr>)"


fun box_width :: "box \<Rightarrow> int" where
  "box_width (x0, y0, x1, y1) = x1 - x0"

fun box_height :: "box \<Rightarrow> int" where
  "box_height (x0, y0, x1, y1) = y1 - y0"

text \<open>
  The coordinates of a drawing call (with the corner radius of a rounded rectangle), and
  the scaling law of the design: a shape drawn at size \<open>sz\<close> is the shape \<open>d\<close> of the
  reference size 512 scaled by \<open>sz / 512\<close> when every coordinate is less than three
  pixels away from the reference coordinate times \<open>sz / 512\<close>.  Every coordinate is a sum
  of up to three truncated terms.
\<close>

fun shape_coords :: "shape \<Rightarrow> int list" where
  "shape_coords (Ellipse (x0, y0, x1, y1) fill) = [x0, y0, x1, y1]"
| "shape_coords (Rectangle (x0, y0, x1, y1) fill) = [x0, y0, x1, y1]"
| "shape_coords (Rounded_rectangle (x0, y0, x1, y1) radius fill) = [x0, y0, x1, y1, radius]"

definition scales_with :: "int \<Rightarrow> shape \<Rightarrow> shape \<Rightarrow> bool" where
  "scales_with sz d s =
     list_all2 (\<lambda>c0 c. \<bar>512 * c - sz * c0\<bar> < 3 * 512) (shape_coords d) (shape_coords s)"

text \<open>The world after a run that completes.\<close>

definition finished :: "library \<Rightarrow> world \<Rightarrow> world" where
  "finished lib w = snd (print_line All_done (fold (saved lib) sizes (dirs_made w)))"

text \<open>
  Worlds to run the driver in: nothing on disk, a file in the place of the first
  directory of the path, and a file in the place of the second.
\<close>

definition empty_world :: world where
  "empty_world = \<lparr>images = [], files = (\<lambda>p. None), trace = []\<rparr>"



section \<open>Well-ordered bounding boxes\<close>

lemma int_scaled_nonneg: "0 \<le> k \<Longrightarrow> 0 \<le> sz \<Longrightarrow> 0 \<le> int_scaled k sz"
  by (simp add: int_scaled_def pos_imp_zdiv_nonneg_iff)

lemma shapes_ordered:
  assumes "0 \<le> sz"
  shows "list_all (\<lambda>s. box_ordered (shape_box s)) (guitar_shapes sz)"
proof -
  have n: "\<And>k. 0 \<le> k \<Longrightarrow> 0 \<le> int_scaled k sz"
    using assms by (simp add: int_scaled_nonneg)
  have h: "\<And>k. 0 \<le> k \<Longrightarrow> 0 \<le> int_scaled k sz div 2"
    using n by (simp add: pos_imp_zdiv_nonneg_iff)
  have m: "2 * int_scaled 20 sz \<le> sz"
    using assms by (simp add: int_scaled_def)
  from n [of 4] n [of 12] n [of 16] n [of 30] n [of 40] n [of 60] n [of 120] n [of 140]
       n [of 200] n [of 280] h [of 4] h [of 12] h [of 16] h [of 120] h [of 200] h [of 280] m
  show ?thesis
    by (simp add: guitar_shapes_def background_def body_def neck_def head_def tuner_def
        guitar_string_def sound_hole_def sound_hole_inner_def note_head_def note_stem_def
        tuner_positions_def string_positions_def note_positions_def Let_def)
qed

section \<open>The renderer as a function of the size\<close>

lemma for_each_draw:
  "img < length (images w) \<Longrightarrow> list_all (\<lambda>s. box_ordered (shape_box s)) ss \<Longrightarrow>
   for_each ss (draw_shape lib img) w =
     (Inr (), w\<lparr>images := (images w)[img := foldl (\<lambda>im s. paint lib s im) (images w ! img) ss]\<rparr>)"
  by (induction ss arbitrary: w) (simp_all add: draw_shape_def)

lemma create_guitar_icon_eq:
  assumes "0 \<le> sz"
  shows "create_guitar_icon lib sz w =
           (Inr (length (images w)), w\<lparr>images := images w @ [rendered lib sz]\<rparr>)"
  using assms shapes_ordered [OF assms]
  by (simp add: create_guitar_icon_def and_then_def Image_new_def return_value_def
      for_each_draw rendered_def)

lemma paint_dims [simp]:
  "im_width (paint lib s im) = im_width im" "im_height (paint lib s im) = im_height im"
  by (simp_all add: paint_def)

lemma foldl_paint_dims [simp]:
  "im_width (foldl (\<lambda>im s. paint lib s im) im ss) = im_width im"
  "im_height (foldl (\<lambda>im s. paint lib s im) im ss) = im_height im"
  by (induction ss arbitrary: im) simp_all

lemma rendered_dims [simp]: "im_width (rendered lib sz) = sz" "im_height (rendered lib sz) = sz"
  by (simp_all add: rendered_def)

lemma inside_paint [simp]: "inside (paint lib s im) p = inside im p"
  by (cases p) simp

lemma inside_foldl [simp]: "inside (foldl (\<lambda>im s. paint lib s im) im ss) p = inside im p"
  by (cases p) simp

lemma paint_data:
  "im_data (paint lib s im) p =
     (if inside im p \<and> shape_covers lib s p then shape_fill s else im_data im p)"
  by (simp add: paint_def)

lemma foldl_paint_data:
  "inside im p \<Longrightarrow>
   im_data (foldl (\<lambda>im s. paint lib s im) im ss) p = top_fill lib ss p (im_data im p)"
  by (induction ss arbitrary: im) (simp_all add: paint_data)

lemma getpixel_rendered:
  "getpixel (rendered lib sz) p =
     (if inside \<lparr>im_width = sz, im_height = sz, im_data = (\<lambda>p. (0, 0, 0, 0))\<rparr> p
      then Some (top_fill lib (guitar_shapes sz) p (0, 0, 0, 0)) else None)"
  by (simp add: getpixel_def rendered_def foldl_paint_data)

lemmas shape_defs = guitar_shapes_def background_def body_def neck_def head_def tuner_def
  guitar_string_def sound_hole_def sound_hole_inner_def note_head_def note_stem_def
  tuner_positions_def string_positions_def note_positions_def

lemma shapes_512: "guitar_shapes 512 =
 [Ellipse (20, 20, 492, 492) (102, 126, 234, 255),
  Ellipse (156, 236, 356, 356) (255, 255, 255, 240),
  Rounded_rectangle (156, 96, 356, 126) 14 (255, 255, 255, 240),
  Rounded_rectangle (116, 56, 396, 116) 30 (255, 255, 255, 240),
  Ellipse (150, 80, 162, 92) (102, 126, 234, 255),
  Ellipse (200, 80, 212, 92) (102, 126, 234, 255),
  Ellipse (300, 80, 312, 92) (102, 126, 234, 255),
  Ellipse (350, 80, 362, 92) (102, 126, 234, 255),
  Rectangle (154, 116, 158, 296) (102, 126, 234, 200),
  Rectangle (204, 116, 208, 296) (102, 126, 234, 200),
  Rectangle (304, 116, 308, 296) (102, 126, 234, 200),
  Rectangle (354, 116, 358, 296) (102, 126, 234, 200),
  Ellipse (216, 256, 296, 336) (255, 107, 107, 255),
  Ellipse (226, 266, 286, 326) (255, 255, 255, 255),
  Ellipse (188, 168, 204, 184) (255, 107, 107, 255),
  Rectangle (202, 160, 206, 184) (255, 107, 107, 255),
  Ellipse (308, 168, 324, 184) (255, 107, 107, 255),
  Rectangle (322, 160, 326, 184) (255, 107, 107, 255)]"
  by (simp add: shape_defs int_scaled_def)

section \<open>What the library's fills cover\<close>

lemma outside_ellipse:
  "confined lib \<Longrightarrow> \<not> rectangle_covers xy p \<Longrightarrow> ellipse_fill lib xy p = False"
  unfolding confined_def by blast

lemma outside_rounded_rectangle:
  "confined lib \<Longrightarrow> \<not> rectangle_covers xy p \<Longrightarrow> rounded_rectangle_fill lib xy radius p = False"
  unfolding confined_def by blast

lemma on_axis:
  "axes_filled lib \<Longrightarrow> rectangle_covers (x0, y0, x1, y1) (x, y) \<Longrightarrow>
   even (x1 - x0) \<Longrightarrow> even (y1 - y0) \<Longrightarrow> x0 < x1 \<or> y0 < y1 \<Longrightarrow>
   2 * x = x0 + x1 \<or> 2 * y = y0 + y1 \<Longrightarrow> ellipse_fill lib (x0, y0, x1, y1) (x, y) = True"
  unfolding axes_filled_def by blast


lemma square_le: "\<bar>a\<bar> \<le> b \<Longrightarrow> a\<^sup>2 \<le> b\<^sup>2" for a b :: int
  by (metis abs_le_square_iff abs_of_nonneg abs_ge_zero order_trans)

lemma confined_example: "confined example_library"
  by (auto simp: confined_def example_library_def)

lemma axes_filled_example: "axes_filled example_library"
proof -
  have "inscribed_ellipse (x0, y0, x1, y1) (x, y)"
    if box: "rectangle_covers (x0, y0, x1, y1) (x, y)" and big: "x0 < x1 \<or> y0 < y1"
      and axis: "2 * x = x0 + x1 \<or> 2 * y = y0 + y1" for x0 y0 x1 y1 x y :: int
  proof -
    from box have "\<bar>2 * x - x0 - x1\<bar> \<le> x1 - x0" "\<bar>2 * y - y0 - y1\<bar> \<le> y1 - y0"
      by auto
    then have sq: "(2 * x - x0 - x1)\<^sup>2 \<le> (x1 - x0)\<^sup>2" "(2 * y - y0 - y1)\<^sup>2 \<le> (y1 - y0)\<^sup>2"
      by (simp_all add: square_le)
    from axis have "(2 * x - x0 - x1)\<^sup>2 * (y1 - y0)\<^sup>2 + (2 * y - y0 - y1)\<^sup>2 * (x1 - x0)\<^sup>2
        \<le> (x1 - x0)\<^sup>2 * (y1 - y0)\<^sup>2"
    proof
      assume "2 * x = x0 + x1"
      then have "2 * x - x0 - x1 = 0" by simp
      with sq(2) show ?thesis
        by (simp add: mult.commute mult_left_mono)
    next
      assume "2 * y = y0 + y1"
      then have "2 * y - y0 - y1 = 0" by simp
      with sq(1) show ?thesis
        by (simp add: mult_right_mono)
    qed
    with box big show ?thesis by simp
  qed
  then show ?thesis
    by (simp add: axes_filled_def example_library_def)
qed

text \<open>The three sample pixels of the 512 canvas, whatever the library does at the edges.\<close>

lemma pixels_512:
  assumes "confined lib" and "axes_filled lib"
  shows "getpixel (rendered lib 512) (0, 0) = Some (0, 0, 0, 0)"
    and "getpixel (rendered lib 512) (256, 256) = Some (255, 107, 107, 255)"
    and "getpixel (rendered lib 512) (256, 400) = Some (102, 126, 234, 255)"
  using assms
  by (simp_all add: getpixel_rendered shapes_512 outside_ellipse outside_rounded_rectangle
      on_axis)

section \<open>Claims about the renderer\<close>

text \<open>
  C9.  \<^verbatim>\<open>create_guitar_icon\<close> is total on every positive size: the bounding box of every
  drawing call is well-ordered (\<open>x0 \<le> x1\<close> and \<open>y0 \<le> y1\<close>), so no call raises and the
  function returns a canvas of that size, in whatever world it is called.  At size 16
  the string width \<^verbatim>\<open>int(4 * scale)\<close>, the tuner diameter \<^verbatim>\<open>int(12 * scale)\<close>, the corner
  radii \<^verbatim>\<open>int(14 * scale)\<close> and \<^verbatim>\<open>int(30 * scale)\<close>, the latter also the inner sound-hole
  radius, all truncate to 0.
\<close>

theorem create_guitar_icon_total:
  assumes "0 < sz"
  shows "list_all (\<lambda>s. box_ordered (shape_box s)) (guitar_shapes sz) \<and>
         (\<exists>img w'. create_guitar_icon lib sz w = (Inr img, w') \<and>
                    im_width (images w' ! img) = sz \<and> im_height (images w' ! img) = sz) \<and>
         int_scaled 4 16 = 0 \<and> int_scaled 12 16 = 0 \<and> int_scaled 14 16 = 0 \<and>
         int_scaled 30 16 = 0"
proof -
  from assms have nn: "0 \<le> sz" by simp
  have "list_all (\<lambda>s. box_ordered (shape_box s)) (guitar_shapes sz)"
    using nn by (rule shapes_ordered)
  moreover have "\<exists>img w'. create_guitar_icon lib sz w = (Inr img, w') \<and>
                    im_width (images w' ! img) = sz \<and> im_height (images w' ! img) = sz"
    by (simp add: create_guitar_icon_eq [OF nn])
  moreover have "int_scaled 4 16 = 0 \<and> int_scaled 12 16 = 0 \<and> int_scaled 14 16 = 0 \<and>
         int_scaled 30 16 = 0"
    by (simp add: int_scaled_def)
  ultimately show ?thesis by blast
qed

theorem create_guitar_icon_total_witness:
  "(0::int) < 16 \<and> list_all (\<lambda>s. box_ordered (shape_box s)) (guitar_shapes 16) \<and>
   (\<exists>img w'. create_guitar_icon example_library 16 empty_world = (Inr img, w') \<and>
              im_width (images w' ! img) = 16 \<and> im_height (images w' ! img) = 16)"
  using create_guitar_icon_total [where sz = 16 and lib = example_library and w = empty_world]
  by simp

text \<open>
  C2.  For every positive size the renderer first creates a canvas of \<open>size \<times> size\<close>
  pixels that is transparent everywhere, then draws the shapes on it, and returns that
  canvas, still \<open>size \<times> size\<close>.  Its only effect is the new image object: the image
  objects that existed before, the file system and the trace are unchanged.
\<close>

theorem create_guitar_icon_canvas:
  assumes "0 < sz"
  shows "\<exists>img w0 w'.
     Image_new (sz, sz) (0, 0, 0, 0) w = (Inr img, w0) \<and>
     im_width (images w0 ! img) = sz \<and> im_height (images w0 ! img) = sz \<and>
     (\<forall>p. im_data (images w0 ! img) p = (0, 0, 0, 0)) \<and>
     for_each (guitar_shapes sz) (draw_shape lib img) w0 = (Inr (), w') \<and>
     create_guitar_icon lib sz w = (Inr img, w') \<and>
     im_width (images w' ! img) = sz \<and> im_height (images w' ! img) = sz \<and>
     img = length (images w) \<and> take img (images w') = images w \<and>
     length (images w') = Suc img \<and>
     files w' = files w \<and> trace w' = trace w"
proof -
  from assms have nn: "0 \<le> sz" by simp
  show ?thesis
    using assms shapes_ordered [OF nn]
    by (simp add: create_guitar_icon_eq [OF nn] Image_new_def for_each_draw rendered_def)
qed

theorem create_guitar_icon_canvas_witness:
  "(0::int) < 16 \<and> (\<exists>img w0 w'.
     Image_new (16, 16) (0, 0, 0, 0) empty_world = (Inr img, w0) \<and>
     (\<forall>p. im_data (images w0 ! img) p = (0, 0, 0, 0)) \<and>
     create_guitar_icon example_library 16 empty_world = (Inr img, w') \<and>
     im_width (images w' ! img) = 16 \<and> im_height (images w' ! img) = 16 \<and>
     files w' = files empty_world \<and> trace w' = trace empty_world)"
  using create_guitar_icon_canvas [where sz = 16 and lib = example_library and w = empty_world]
  by auto

text \<open>
  C7.  The renderer is deterministic: two invocations with the same positive size, in
  any two worlds, both return a canvas, and the two canvases are equal, pixel for pixel.
\<close>

theorem create_guitar_icon_deterministic:
  assumes "0 < sz"
    and "create_guitar_icon lib sz w1 = (r1, v1)"
    and "create_guitar_icon lib sz w2 = (r2, v2)"
  shows "\<exists>i1 i2. r1 = Inr i1 \<and> r2 = Inr i2 \<and> images v1 ! i1 = images v2 ! i2 \<and>
           (\<forall>p. getpixel (images v1 ! i1) p = getpixel (images v2 ! i2) p)"
proof -
  from assms(1) have nn: "0 \<le> sz" by simp
  show ?thesis
    using assms(2,3) by (auto simp: create_guitar_icon_eq [OF nn])
qed

theorem create_guitar_icon_deterministic_witness:
  "(0::int) < 16 \<and>
   (\<exists>i1 i2. fst (create_guitar_icon example_library 16 empty_world) = Inr i1 \<and>
      fst (create_guitar_icon example_library 16 (snd (create_guitar_icon example_library 16 empty_world))) = Inr i2 \<and>
      images (snd (create_guitar_icon example_library 16 empty_world)) ! i1 =
      images (snd (create_guitar_icon example_library 16 (snd (create_guitar_icon example_library 16 empty_world)))) ! i2)"
proof -
  have a: "create_guitar_icon example_library 16 empty_world =
      (fst (create_guitar_icon example_library 16 empty_world), snd (create_guitar_icon example_library 16 empty_world))"
    by simp
  have b: "create_guitar_icon example_library 16 (snd (create_guitar_icon example_library 16 empty_world)) =
      (fst (create_guitar_icon example_library 16 (snd (create_guitar_icon example_library 16 empty_world))),
       snd (create_guitar_icon example_library 16 (snd (create_guitar_icon example_library 16 empty_world))))"
    by simp
  have "(0::int) < 16" by simp
  from create_guitar_icon_deterministic [OF this a b] show ?thesis by auto
qed

text \<open>
  C3, as stated, fails: at size 512 the pixel \<open>(0, 0)\<close> is transparent, but the pixel
  \<open>(256, 256)\<close> does not have the background colour.  It lies inside the body ellipse
  \<open>(156, 236, 356, 356)\<close> and on the top edge of the sound-hole disc
  \<open>(216, 256, 296, 336)\<close>, both drawn after the background.
\<close>

theorem centre_pixel_background_counterexample:
  "fst (create_guitar_icon example_library 512 empty_world) = Inr 0 \<and>
   getpixel (images (snd (create_guitar_icon example_library 512 empty_world)) ! 0) (0, 0)
     = Some (0, 0, 0, 0) \<and>
   getpixel (images (snd (create_guitar_icon example_library 512 empty_world)) ! 0) (256, 256)
     \<noteq> Some (102, 126, 234, 255)"
  by (simp add: create_guitar_icon_eq empty_world_def
      pixels_512 [OF confined_example axes_filled_example])

text \<open>
  C3, amended.  In the canvas returned by \<^verbatim>\<open>create_guitar_icon(512)\<close> the pixel \<open>(0, 0)\<close>
  is fully transparent, the pixel \<open>(256, 256)\<close> has the sound-hole colour
  \<open>(255, 107, 107)\<close>, opaque, and the background fill \<open>(102, 126, 234)\<close>, opaque, shows
  where no later shape is drawn, for instance at \<open>(256, 400)\<close>.  This holds with every
  imaging library whose fills stay inside the bounding box and cover the middle column
  and the middle row of an ellipse's box.
\<close>

theorem sample_pixels_512:
  assumes "confined lib" and "axes_filled lib"
  shows "\<exists>img w'. create_guitar_icon lib 512 w = (Inr img, w') \<and>
     getpixel (images w' ! img) (0, 0) = Some (0, 0, 0, 0) \<and>
     getpixel (images w' ! img) (256, 256) = Some (255, 107, 107, 255) \<and>
     getpixel (images w' ! img) (256, 400) = Some (102, 126, 234, 255)"
  by (simp add: create_guitar_icon_eq pixels_512 [OF assms])

theorem sample_pixels_512_witness:
  "confined example_library \<and> axes_filled example_library \<and>
   (\<exists>img w'. create_guitar_icon example_library 512 empty_world = (Inr img, w') \<and>
     getpixel (images w' ! img) (0, 0) = Some (0, 0, 0, 0) \<and>
     getpixel (images w' ! img) (256, 256) = Some (255, 107, 107, 255) \<and>
     getpixel (images w' ! img) (256, 400) = Some (102, 126, 234, 255))"
  using sample_pixels_512 [OF confined_example axes_filled_example, of empty_world]
    confined_example axes_filled_example
  by blast

section \<open>The file system operations\<close>

lemma lookup0: "lookup fs [] = Some Dir"
  by (simp add: lookup_def)

lemma lookup1: "lookup fs [a] = fs [a]"
  by (simp add: lookup_def)

lemma lookup2: "lookup fs [a, b] = (if fs [a] = Some Dir then fs [a, b] else None)"
  by (simp add: lookup_def)

lemma lookup3:
  "lookup fs [a, b, c] = (if fs [a] = Some Dir \<and> fs [a, b] = Some Dir then fs [a, b, c] else None)"
  by (simp add: lookup_def)

lemma lookup4:
  "lookup fs [a, b, c, d] =
     (if fs [a] = Some Dir \<and> fs [a, b] = Some Dir \<and> fs [a, b, c] = Some Dir
      then fs [a, b, c, d] else None)"
  by (simp add: lookup_def)

lemma node_cases: "x = None \<or> x = Some Dir \<or> (\<exists>d. x = Some (File d))"
proof (cases x)
  case None
  then show ?thesis by simp
next
  case (Some n)
  then show ?thesis by (cases n) simp_all
qed


lemmas makedirs_unfold =
  makedirs.simps [of "[a, b, c]" for a b c]
  makedirs.simps [of "[a, b]" for a b]
  makedirs.simps [of "[a]" for a]

lemma makedirs3_ok:
  assumes "\<forall>d. lookup (files w) [a] \<noteq> Some (File d)"
    and "\<forall>d. lookup (files w) [a, b] \<noteq> Some (File d)"
    and "\<forall>d. lookup (files w) [a, b, c] \<noteq> Some (File d)"
  shows "makedirs [a, b, c] True w =
           (Inr (), ensure_dir [a, b, c] (ensure_dir [a, b] (ensure_dir [a] w)))"
proof -
  consider (n1) "files w [a] = None"
    | (n2) "files w [a] = Some Dir" "files w [a, b] = None"
    | (n3) "files w [a] = Some Dir" "files w [a, b] = Some Dir" "files w [a, b, c] = None"
    | (n4) "files w [a] = Some Dir" "files w [a, b] = Some Dir" "files w [a, b, c] = Some Dir"
    using assms node_cases [of "files w [a]"] node_cases [of "files w [a, b]"]
      node_cases [of "files w [a, b, c]"]
    by (auto simp add: lookup0 lookup1 lookup2 lookup3 split: if_splits)
  then show ?thesis
  proof cases
    case n1
    then show ?thesis
      by (simp add: makedirs_unfold os_path_exists_def os_path_isdir_def os_mkdir_def
          lookup0 lookup1 lookup2 lookup3 ensure_dir_def made_dir_def)
  next
    case n2
    then show ?thesis
      by (simp add: makedirs_unfold os_path_exists_def os_path_isdir_def os_mkdir_def
          lookup0 lookup1 lookup2 lookup3 ensure_dir_def made_dir_def)
  next
    case n3
    then show ?thesis
      by (simp add: makedirs_unfold os_path_exists_def os_path_isdir_def os_mkdir_def
          lookup0 lookup1 lookup2 lookup3 ensure_dir_def made_dir_def)
  next
    case n4
    then show ?thesis
      by (simp add: makedirs_unfold os_path_exists_def os_path_isdir_def os_mkdir_def
          lookup0 lookup1 lookup2 lookup3 ensure_dir_def made_dir_def)
  qed
qed

lemma makedirs3_fails:
  assumes "lookup (files w) [a] = Some (File d) \<or> lookup (files w) [a, b] = Some (File d)
           \<or> lookup (files w) [a, b, c] = Some (File d)"
  shows "\<exists>e. makedirs [a, b, c] True w = (Inl e, w)"
  using assms
  by (auto simp add: makedirs_unfold os_path_exists_def os_path_isdir_def os_mkdir_def
          lookup0 lookup1 lookup2 lookup3 split: if_splits)

section \<open>The batch driver, step by step\<close>

lemma save_icon_ok:
  assumes "0 \<le> sz" and "lookup (files w) output_dir = Some Dir"
    and "files w (os_path_join output_dir f) \<noteq> Some Dir"
  shows "save_icon lib (sz, f) w = (Inr (), saved lib (sz, f) w)"
  using assms
  by (simp add: save_icon_def and_then_def print_line_def create_guitar_icon_eq Image_save_def
      os_path_join_def saved_def)

lemma save_icon_result:
  assumes "0 \<le> sz" and "save_icon lib (sz, f) w = (Inr u, w')"
  shows "w' = saved lib (sz, f) w"
  using assms
  by (simp add: save_icon_def and_then_def print_line_def create_guitar_icon_eq Image_save_def
      os_path_join_def saved_def split: option.splits node.splits if_splits)

lemma lookup_saved_dir: "lookup (files (saved lib e w)) output_dir = lookup (files w) output_dir"
  by (cases e) (simp add: saved_def output_dir_def os_path_join_def lookup3)

lemma files_saved_not_dir:
  "files w p \<noteq> Some Dir \<Longrightarrow> files (saved lib e w) p \<noteq> Some Dir"
  by (cases e) (simp add: saved_def)

lemma for_each_save_ok:
  "lookup (files w) output_dir = Some Dir \<Longrightarrow>
   list_all (\<lambda>(sz, f). 0 \<le> sz \<and> files w (os_path_join output_dir f) \<noteq> Some Dir) es \<Longrightarrow>
   for_each es (save_icon lib) w = (Inr (), fold (saved lib) es w)"
proof (induction es arbitrary: w)
  case Nil
  then show ?case by simp
next
  case (Cons e es)
  obtain sz f where e: "e = (sz, f)" by (cases e)
  from Cons.prems e have step: "save_icon lib e w = (Inr (), saved lib e w)"
    by (simp add: save_icon_ok)
  have dir: "lookup (files (saved lib e w)) output_dir = Some Dir"
    using Cons.prems(1) by (simp add: lookup_saved_dir)
  have rest: "list_all (\<lambda>(sz, f). 0 \<le> sz \<and>
                 files (saved lib e w) (os_path_join output_dir f) \<noteq> Some Dir) es"
    using Cons.prems(2) by (auto simp: list_all_iff files_saved_not_dir)
  from Cons.IH [OF dir rest] step show ?case by simp
qed

lemma for_each_save_result:
  "list_all (\<lambda>(sz, f). 0 \<le> sz) es \<Longrightarrow> for_each es (save_icon lib) w = (Inr u, w') \<Longrightarrow>
   w' = fold (saved lib) es w"
proof (induction es arbitrary: w)
  case Nil
  then show ?case by simp
next
  case (Cons e es)
  obtain sz f where e: "e = (sz, f)" by (cases e)
  from Cons.prems obtain r w1 where r: "save_icon lib e w = (r, w1)"
    by (cases "save_icon lib e w") blast
  with Cons.prems(2) obtain u1 where u1: "r = Inr u1"
    by (cases r) simp_all
  from Cons.prems(1) e r u1 have w1: "w1 = saved lib e w"
    by (simp add: save_icon_result)
  from Cons.prems r u1 have "for_each es (save_icon lib) w1 = (Inr u, w')" by simp
  with Cons.IH [of w1] Cons.prems(1) w1 show ?case by simp
qed

subsection \<open>The world after the passes of the loop\<close>




lemma images_fold_saved:
  "images (fold (saved lib) es w) = images w @ map (\<lambda>(sz, f). rendered lib sz) es"
  by (induction es arbitrary: w) (auto simp: saved_def)

lemma files_fold_saved_dir:
  "lookup (files (fold (saved lib) es w)) output_dir = lookup (files w) output_dir"
  by (induction es arbitrary: w) (simp_all add: lookup_saved_dir)

lemma files_fold_saved:
  "files (fold (saved lib) es w) =
     files w ++ map_of (rev (map (\<lambda>(sz, f). (os_path_join output_dir f,
                                              File (Encoded ''PNG'' (rendered lib sz)))) es))"
proof (induction es arbitrary: w)
  case Nil
  then show ?case by simp
next
  case (Cons e es)
  obtain sz f where e: "e = (sz, f)" by (cases e)
  have "files (saved lib e w) = files w ++ [os_path_join output_dir f \<mapsto>
          File (Encoded ''PNG'' (rendered lib sz))]"
    by (simp add: e saved_def)
  then have "files (fold (saved lib) es (saved lib e w)) =
      (files w ++ [os_path_join output_dir f \<mapsto> File (Encoded ''PNG'' (rendered lib sz))])
        ++ map_of (rev (map (\<lambda>(sz, f). (os_path_join output_dir f,
                                              File (Encoded ''PNG'' (rendered lib sz)))) es))"
    by (simp only: Cons.IH)
  then show ?case
    by (simp only: fold_Cons comp_def list.map rev.simps map_of_append e prod.case
        map_add_assoc map_of.simps fst_conv snd_conv map_add_empty
        map_add_upd)
qed

lemma lookup_target:
  "lookup (files w) output_dir = Some Dir \<Longrightarrow>
   lookup (files w) (os_path_join output_dir f) = files w (os_path_join output_dir f)"
  by (simp add: output_dir_def os_path_join_def lookup3 lookup4 split: if_splits)

subsection \<open>The world after \<^verbatim>\<open>makedirs\<close>\<close>

lemma sizes_nonneg: "list_all (\<lambda>(sz, f). 0 \<le> sz) sizes"
  by (simp add: sizes_def)

lemma creatable_cases:
  assumes "\<forall>d. lookup (files w) [a] \<noteq> Some (File d)"
    and "\<forall>d. lookup (files w) [a, b] \<noteq> Some (File d)"
    and "\<forall>d. lookup (files w) [a, b, c] \<noteq> Some (File d)"
  shows "files w [a] = None
     \<or> files w [a] = Some Dir \<and> files w [a, b] = None
     \<or> files w [a] = Some Dir \<and> files w [a, b] = Some Dir \<and> files w [a, b, c] = None
     \<or> files w [a] = Some Dir \<and> files w [a, b] = Some Dir \<and> files w [a, b, c] = Some Dir"
  using assms node_cases [of "files w [a]"] node_cases [of "files w [a, b]"]
      node_cases [of "files w [a, b, c]"]
  by (auto simp add: lookup1 lookup2 lookup3 split: if_splits)

lemma ensure3_dirs:
  assumes "\<forall>d. lookup (files w) [a] \<noteq> Some (File d)"
    and "\<forall>d. lookup (files w) [a, b] \<noteq> Some (File d)"
    and "\<forall>d. lookup (files w) [a, b, c] \<noteq> Some (File d)"
  shows "files (ensure_dir [a, b, c] (ensure_dir [a, b] (ensure_dir [a] w))) [a] = Some Dir \<and>
         files (ensure_dir [a, b, c] (ensure_dir [a, b] (ensure_dir [a] w))) [a, b] = Some Dir \<and>
         files (ensure_dir [a, b, c] (ensure_dir [a, b] (ensure_dir [a] w))) [a, b, c] = Some Dir"
  using creatable_cases [OF assms]
  by (auto simp add: ensure_dir_def made_dir_def lookup1 lookup2 lookup3)

lemma ensure3_target:
  assumes "\<forall>d. lookup (files w) [a] \<noteq> Some (File d)"
    and "\<forall>d. lookup (files w) [a, b] \<noteq> Some (File d)"
    and "\<forall>d. lookup (files w) [a, b, c] \<noteq> Some (File d)"
    and "lookup (files w) [a, b, c, f] \<noteq> Some Dir"
  shows "files (ensure_dir [a, b, c] (ensure_dir [a, b] (ensure_dir [a] w))) [a, b, c, f]
           \<noteq> Some Dir"
  using creatable_cases [OF assms(1,2,3)] assms(4)
  by (auto simp add: ensure_dir_def made_dir_def lookup1 lookup2 lookup3 lookup4)


lemma ensure3_images:
  "images (ensure_dir [a, b, c] (ensure_dir [a, b] (ensure_dir [a] w))) = images w"
  by (simp add: ensure_dir_def made_dir_def)


subsection \<open>The whole run\<close>

lemma not_a_file_iff: "not_a_file w p \<longleftrightarrow> (\<forall>d. lookup (files w) p \<noteq> Some (File d))"
  by (auto simp: not_a_file_def split: option.splits node.splits)

lemma makedirs_output_dir_ok:
  assumes "not_a_file w (take 1 output_dir)" and "not_a_file w (take 2 output_dir)"
    and "not_a_file w output_dir"
  shows "makedirs output_dir True w = (Inr (), dirs_made w)"
  using assms
  by (simp add: output_dir_def dirs_made_def not_a_file_iff makedirs3_ok)

lemma makedirs_output_dir_fails:
  assumes "\<not> (not_a_file w (take 1 output_dir) \<and> not_a_file w (take 2 output_dir)
              \<and> not_a_file w output_dir)"
  shows "\<exists>e. makedirs output_dir True w = (Inl e, w)"
proof -
  from assms obtain d where
    "lookup (files w) [''guitarPlayer''] = Some (File d)
     \<or> lookup (files w) [''guitarPlayer'', ''Assets.xcassets''] = Some (File d)
     \<or> lookup (files w) [''guitarPlayer'', ''Assets.xcassets'', ''AppIcon.appiconset'']
         = Some (File d)"
    by (auto simp: not_a_file_iff output_dir_def)
  then show ?thesis
    unfolding output_dir_def by (rule makedirs3_fails)
qed

lemma dirs_made_dir:
  assumes "not_a_file w (take 1 output_dir)" and "not_a_file w (take 2 output_dir)"
    and "not_a_file w output_dir"
  shows "lookup (files (dirs_made w)) output_dir = Some Dir"
    and "lookup (files (dirs_made w)) (take 2 output_dir) = Some Dir"
    and "lookup (files (dirs_made w)) (take 1 output_dir) = Some Dir"
  using assms ensure3_dirs [of w "''guitarPlayer''" "''Assets.xcassets''" "''AppIcon.appiconset''"]
  by (simp_all add: output_dir_def dirs_made_def not_a_file_iff lookup1 lookup2 lookup3)

lemma dirs_made_target:
  assumes "not_a_file w (take 1 output_dir)" and "not_a_file w (take 2 output_dir)"
    and "not_a_file w output_dir"
    and "lookup (files w) (os_path_join output_dir f) \<noteq> Some Dir"
  shows "files (dirs_made w) (os_path_join output_dir f) \<noteq> Some Dir"
  using assms
    ensure3_target [of w "''guitarPlayer''" "''Assets.xcassets''" "''AppIcon.appiconset''" f]
  by (simp add: output_dir_def dirs_made_def not_a_file_iff os_path_join_def)




lemma generate_icons_ok:
  assumes "not_a_file w (take 1 output_dir)" and "not_a_file w (take 2 output_dir)"
    and "not_a_file w output_dir"
    and "list_all (\<lambda>(sz, f). lookup (files w) (os_path_join output_dir f) \<noteq> Some Dir) sizes"
  shows "generate_icons lib w = (Inr (), finished lib w)"
proof -
  have "list_all (\<lambda>(sz, f). 0 \<le> sz \<and>
          files (dirs_made w) (os_path_join output_dir f) \<noteq> Some Dir) sizes"
    using assms(4) sizes_nonneg dirs_made_target [OF assms(1,2,3)]
    by (auto simp: list_all_iff)
  then have "for_each sizes (save_icon lib) (dirs_made w) = (Inr (), fold (saved lib) sizes (dirs_made w))"
    using dirs_made_dir(1) [OF assms(1,2,3)] by (simp add: for_each_save_ok)
  then show ?thesis
    by (simp add: generate_icons_def and_then_def makedirs_output_dir_ok [OF assms(1,2,3)]
        print_line_def finished_def)
qed

lemma generate_icons_result:
  assumes "generate_icons lib w = (Inr u, w')"
  shows "not_a_file w (take 1 output_dir) \<and> not_a_file w (take 2 output_dir)
           \<and> not_a_file w output_dir \<and> w' = finished lib w"
proof -
  have ok: "not_a_file w (take 1 output_dir) \<and> not_a_file w (take 2 output_dir)
              \<and> not_a_file w output_dir"
  proof (rule ccontr)
    assume "\<not> ?thesis"
    from makedirs_output_dir_fails [OF this] assms show False
      by (auto simp: generate_icons_def and_then_def)
  qed
  then have mk: "makedirs output_dir True w = (Inr (), dirs_made w)"
    by (simp add: makedirs_output_dir_ok)
  obtain r w2 where loop: "for_each sizes (save_icon lib) (dirs_made w) = (r, w2)"
    by (cases "for_each sizes (save_icon lib) (dirs_made w)") blast
  from assms mk loop obtain u2 where r: "r = Inr u2"
    by (cases r) (simp_all add: generate_icons_def and_then_def)
  from loop r have "w2 = fold (saved lib) sizes (dirs_made w)"
    using for_each_save_result [OF sizes_nonneg] by simp
  with assms mk loop r have "w' = finished lib w"
    by (simp add: generate_icons_def and_then_def print_line_def finished_def)
  with ok show ?thesis by simp
qed


lemma finished_dir:
  assumes "not_a_file w (take 1 output_dir)" and "not_a_file w (take 2 output_dir)"
    and "not_a_file w output_dir"
  shows "lookup (files (finished lib w)) output_dir = Some Dir"
  using dirs_made_dir(1) [OF assms]
  by (simp add: finished_def print_line_def files_fold_saved_dir)

lemma sizes_distinct: "distinct (map snd sizes)"
  by (simp add: sizes_def)

lemma fold_saved_lookup:
  assumes "distinct (map snd es)" and "(sz, f) \<in> set es"
  shows "files (fold (saved lib) es w) (os_path_join output_dir f)
           = Some (File (Encoded ''PNG'' (rendered lib sz)))"
proof -
  let ?K = "map (\<lambda>(sz, f). (os_path_join output_dir f,
                                File (Encoded ''PNG'' (rendered lib sz)))) es"
  have "map fst ?K = map (\<lambda>f. os_path_join output_dir f) (map snd es)"
    by (simp add: case_prod_unfold comp_def)
  with assms(1) have "distinct (map fst (rev ?K))"
    by (simp add: distinct_map inj_on_def os_path_join_def rev_map [symmetric] del: map_map)
  moreover have "(os_path_join output_dir f, File (Encoded ''PNG'' (rendered lib sz)))
                   \<in> set (rev ?K)"
    using assms(2) by force
  ultimately have "map_of (rev ?K) (os_path_join output_dir f)
                     = Some (File (Encoded ''PNG'' (rendered lib sz)))"
    by (rule map_of_is_SomeI)
  then show ?thesis
    by (simp add: files_fold_saved map_add_def)
qed

lemma finished_files:
  assumes "not_a_file w (take 1 output_dir)" and "not_a_file w (take 2 output_dir)"
    and "not_a_file w output_dir" and "(sz, f) \<in> set sizes"
  shows "lookup (files (finished lib w)) (os_path_join output_dir f)
            = Some (File (Encoded ''PNG'' (rendered lib sz)))"
  using lookup_target [OF finished_dir [OF assms(1,2,3)]]
    fold_saved_lookup [OF sizes_distinct assms(4)]
  by (simp add: finished_def print_line_def)

section \<open>Claims about the batch driver\<close>

lemma lookup_empty: "lookup (\<lambda>p. None) p = (if p = [] then Some Dir else None)"
  by (simp add: lookup_def)

lemma empty_world_ready:
  "not_a_file empty_world (take 1 output_dir)" "not_a_file empty_world (take 2 output_dir)"
  "not_a_file empty_world output_dir"
  "list_all (\<lambda>(sz, f). lookup (files empty_world) (os_path_join output_dir f) \<noteq> Some Dir) sizes"
  by (simp_all add: not_a_file_def empty_world_def lookup_empty output_dir_def os_path_join_def
      list_all_iff)





text \<open>
  C10.  After a run that completes, the table entries that share a pixel size hold the
  same image under different names: \<^verbatim>\<open>icon_16x16@2x.png\<close> equals \<^verbatim>\<open>icon_32x32.png\<close>,
  \<^verbatim>\<open>icon_128x128@2x.png\<close> equals \<^verbatim>\<open>icon_256x256.png\<close>, and \<^verbatim>\<open>icon_256x256@2x.png\<close> equals
  \<^verbatim>\<open>icon_512x512.png\<close>; each is a PNG file.
\<close>

theorem shared_sizes_identical:
  assumes "generate_icons lib w = (Inr u, w')"
  shows "lookup (files w') (os_path_join output_dir ''icon_16x16@2x.png'')
           = lookup (files w') (os_path_join output_dir ''icon_32x32.png'') \<and>
         lookup (files w') (os_path_join output_dir ''icon_128x128@2x.png'')
           = lookup (files w') (os_path_join output_dir ''icon_256x256.png'') \<and>
         lookup (files w') (os_path_join output_dir ''icon_256x256@2x.png'')
           = lookup (files w') (os_path_join output_dir ''icon_512x512.png'') \<and>
         (\<exists>a b c. lookup (files w') (os_path_join output_dir ''icon_32x32.png'')
                      = Some (File (Encoded ''PNG'' a)) \<and> im_width a = 32 \<and>
                  lookup (files w') (os_path_join output_dir ''icon_256x256.png'')
                      = Some (File (Encoded ''PNG'' b)) \<and> im_width b = 256 \<and>
                  lookup (files w') (os_path_join output_dir ''icon_512x512.png'')
                      = Some (File (Encoded ''PNG'' c)) \<and> im_width c = 512)"
proof -
  from generate_icons_result [OF assms]
  have ok: "not_a_file w (take 1 output_dir)" "not_a_file w (take 2 output_dir)"
    "not_a_file w output_dir" and w': "w' = finished lib w"
    by simp_all
  have m: "(32, ''icon_16x16@2x.png'') \<in> set sizes" "(32, ''icon_32x32.png'') \<in> set sizes"
    "(256, ''icon_128x128@2x.png'') \<in> set sizes" "(256, ''icon_256x256.png'') \<in> set sizes"
    "(512, ''icon_256x256@2x.png'') \<in> set sizes" "(512, ''icon_512x512.png'') \<in> set sizes"
    by (simp_all add: sizes_def)
  show ?thesis
    unfolding w' by (simp add: m [THEN finished_files [OF ok]])
qed

theorem shared_sizes_identical_witness:
  "fst (generate_icons example_library empty_world) = Inr () \<and>
   lookup (files (snd (generate_icons example_library empty_world))) (os_path_join output_dir ''icon_16x16@2x.png'')
     = lookup (files (snd (generate_icons example_library empty_world))) (os_path_join output_dir ''icon_32x32.png'') \<and>
   lookup (files (snd (generate_icons example_library empty_world))) (os_path_join output_dir ''icon_128x128@2x.png'')
     = lookup (files (snd (generate_icons example_library empty_world))) (os_path_join output_dir ''icon_256x256.png'') \<and>
   lookup (files (snd (generate_icons example_library empty_world))) (os_path_join output_dir ''icon_256x256@2x.png'')
     = lookup (files (snd (generate_icons example_library empty_world))) (os_path_join output_dir ''icon_512x512.png'')"
proof -
  have f: "fst (generate_icons example_library empty_world) = Inr ()"
    by (simp add: generate_icons_ok [OF empty_world_ready])
  then have run: "generate_icons example_library empty_world = (Inr (), snd (generate_icons example_library empty_world))"
    by (metis prod.collapse)
  from shared_sizes_identical [OF run] f show ?thesis by blast
qed










section \<open>The scaling law\<close>

lemma int_scaled_512: "int_scaled k 512 = k"
proof -
  have "- (k * 512) div 512 = - k"
    by (metis minus_mult_left nonzero_mult_div_cancel_right zero_neq_numeral)
  then show ?thesis by (simp add: int_scaled_def)
qed

lemma trunc_bound:
  "n - 511 \<le> 512 * (if 0 \<le> n then n div 512 else - ((- n) div 512)) \<and>
   512 * (if 0 \<le> n then n div 512 else - ((- n) div 512)) \<le> n + 511" for n :: int
  by (cases "0 \<le> n") (simp_all, linarith+)

lemma int_scaled_bound:
  "k * sz - 511 \<le> 512 * int_scaled k sz" "512 * int_scaled k sz \<le> k * sz + 511"
  using trunc_bound [of "k * sz"] by (simp_all add: int_scaled_def)

lemma half_bound: "g - 1 \<le> 2 * (g div 2)" "2 * (g div 2) \<le> g" for g :: int
  by linarith+

lemma scaled_bounds:
  fixes sz k :: int
  shows "sz - 1 \<le> 2 * (sz div 2) \<and> 2 * (sz div 2) \<le> sz \<and>
         k * sz - 511 \<le> 512 * int_scaled k sz \<and> 512 * int_scaled k sz \<le> k * sz + 511 \<and>
         int_scaled k sz - 1 \<le> 2 * (int_scaled k sz div 2) \<and>
         2 * (int_scaled k sz div 2) \<le> int_scaled k sz"
  using half_bound [of sz] int_scaled_bound [of k sz] half_bound [of "int_scaled k sz"]
  by simp

lemma background_scales: "scales_with sz (background 512) (background sz)"
  using scaled_bounds [of sz 20]
  by (simp add: background_def scales_with_def Let_def int_scaled_512 abs_less_iff algebra_simps)

lemma body_scales: "scales_with sz (body 512) (body sz)"
  using scaled_bounds [of sz 200] scaled_bounds [of sz 120] scaled_bounds [of sz 40]
  by (simp add: body_def scales_with_def Let_def int_scaled_512 abs_less_iff algebra_simps)

lemma neck_scales: "scales_with sz (neck 512) (neck sz)"
  using scaled_bounds [of sz 200] scaled_bounds [of sz 30] scaled_bounds [of sz 160]
    scaled_bounds [of sz 14]
  by (simp add: neck_def scales_with_def Let_def int_scaled_512 abs_less_iff algebra_simps)

lemma head_scales: "scales_with sz (head 512) (head sz)"
  using scaled_bounds [of sz 280] scaled_bounds [of sz 60] scaled_bounds [of sz 200]
    scaled_bounds [of sz 30]
  by (simp add: head_def scales_with_def Let_def int_scaled_512 abs_less_iff algebra_simps)

lemma tuner_scales: "scales_with sz (tuner 512 pos) (tuner sz pos)"
proof -
  obtain x y where pos: "pos = (x, y)" by (cases pos)
  show ?thesis
    using scaled_bounds [of sz 12] scaled_bounds [of sz x] scaled_bounds [of sz y]
    by (simp add: pos tuner_def scales_with_def Let_def int_scaled_512 abs_less_iff
        algebra_simps)
qed

lemma guitar_string_scales: "scales_with sz (guitar_string 512 x) (guitar_string sz x)"
  using scaled_bounds [of sz 4] scaled_bounds [of sz x] scaled_bounds [of sz 140]
    scaled_bounds [of sz 40]
  by (simp add: guitar_string_def scales_with_def Let_def int_scaled_512 abs_less_iff
      algebra_simps)

lemma sound_hole_scales: "scales_with sz (sound_hole 512) (sound_hole sz)"
  using scaled_bounds [of sz 40]
  by (simp add: sound_hole_def scales_with_def Let_def int_scaled_512 abs_less_iff
      algebra_simps)

lemma sound_hole_inner_scales: "scales_with sz (sound_hole_inner 512) (sound_hole_inner sz)"
  using scaled_bounds [of sz 40] scaled_bounds [of sz 30]
  by (simp add: sound_hole_inner_def scales_with_def Let_def int_scaled_512 abs_less_iff
      algebra_simps)

lemma note_head_scales: "scales_with sz (note_head 512 pos) (note_head sz pos)"
proof -
  obtain x y where pos: "pos = (x, y)" by (cases pos)
  show ?thesis
    using scaled_bounds [of sz 16] scaled_bounds [of sz x] scaled_bounds [of sz y]
    by (simp add: pos note_head_def scales_with_def Let_def int_scaled_512 abs_less_iff
        algebra_simps)
qed

lemma note_stem_width: "box_width (shape_box (note_stem sz pos)) = 4"
  by (cases pos) (simp add: note_stem_def Let_def)

lemma guitar_string_width:
  "box_width (shape_box (guitar_string sz x)) = 2 * (int_scaled 4 sz div 2)"
  by (simp add: guitar_string_def Let_def)

lemma shapes_1024: "guitar_shapes 1024 =
 [Ellipse (40, 40, 984, 984) (102, 126, 234, 255),
  Ellipse (312, 472, 712, 712) (255, 255, 255, 240),
  Rounded_rectangle (312, 192, 712, 252) 28 (255, 255, 255, 240),
  Rounded_rectangle (232, 112, 792, 232) 60 (255, 255, 255, 240),
  Ellipse (300, 160, 324, 184) (102, 126, 234, 255),
  Ellipse (400, 160, 424, 184) (102, 126, 234, 255),
  Ellipse (600, 160, 624, 184) (102, 126, 234, 255),
  Ellipse (700, 160, 724, 184) (102, 126, 234, 255),
  Rectangle (308, 232, 316, 592) (102, 126, 234, 200),
  Rectangle (408, 232, 416, 592) (102, 126, 234, 200),
  Rectangle (608, 232, 616, 592) (102, 126, 234, 200),
  Rectangle (708, 232, 716, 592) (102, 126, 234, 200),
  Ellipse (432, 512, 592, 672) (255, 107, 107, 255),
  Ellipse (452, 532, 572, 652) (255, 255, 255, 255),
  Ellipse (376, 336, 408, 368) (255, 107, 107, 255),
  Rectangle (406, 320, 410, 368) (255, 107, 107, 255),
  Ellipse (616, 336, 648, 368) (255, 107, 107, 255),
  Rectangle (646, 320, 650, 368) (255, 107, 107, 255)]"
  by (simp add: shape_defs int_scaled_def)

lemma shapes_512_coords_doubled:
  "map shape_coords (guitar_shapes 1024) =
     (map (map ((*) 2) \<circ> shape_coords) (guitar_shapes 512))
       [15 := [406, 320, 410, 368], 17 := [646, 320, 650, 368]]"
  by (simp add: shapes_512 shapes_1024)

text \<open>
  C4.  Every coordinate of every drawing call other than the note stems, and the corner
  radii, follow the scaling law: at every size they are less than three pixels away from
  the coordinate of the 512 design times \<open>size / 512\<close>.  The note stem does not: its
  rectangle is 4 pixels wide at every size, where the strings, drawn the same way, have
  the scaled width \<^verbatim>\<open>int(4 * scale)\<close>.  At size 4096 the stem is outside the tolerance,
  and at size 1024, where nothing is truncated, every coordinate is exactly twice the
  one at 512 except those of the two stems, \<open>(406, 320, 410, 368)\<close> for twice
  \<open>(202, 160, 206, 184)\<close>.
\<close>

theorem scaling_law_except_note_stem:
  "scales_with sz (background 512) (background sz) \<and>
   scales_with sz (body 512) (body sz) \<and>
   scales_with sz (neck 512) (neck sz) \<and>
   scales_with sz (head 512) (head sz) \<and>
   scales_with sz (tuner 512 pos) (tuner sz pos) \<and>
   scales_with sz (guitar_string 512 x) (guitar_string sz x) \<and>
   scales_with sz (sound_hole 512) (sound_hole sz) \<and>
   scales_with sz (sound_hole_inner 512) (sound_hole_inner sz) \<and>
   scales_with sz (note_head 512 pos) (note_head sz pos) \<and>
   box_width (shape_box (guitar_string sz x)) = 2 * (int_scaled 4 sz div 2) \<and>
   box_width (shape_box (note_stem sz pos)) = 4 \<and>
   \<not> scales_with 4096 (note_stem 512 (-60, -80)) (note_stem 4096 (-60, -80)) \<and>
   map shape_coords (guitar_shapes 1024) =
     (map (map ((*) 2) \<circ> shape_coords) (guitar_shapes 512))
       [15 := [406, 320, 410, 368], 17 := [646, 320, 650, 368]] \<and>
   map ((*) 2) (shape_coords (note_stem 512 (-60, -80))) = [404, 320, 412, 368]"
proof -
  have "\<not> scales_with 4096 (note_stem 512 (-60, -80)) (note_stem 4096 (-60, -80))"
    by (simp add: scales_with_def note_stem_def int_scaled_def)
  moreover have "map ((*) 2) (shape_coords (note_stem 512 (-60, -80))) = [404, 320, 412, 368]"
    by (simp add: note_stem_def int_scaled_def)
  ultimately show ?thesis
    using background_scales body_scales neck_scales head_scales tuner_scales
      guitar_string_scales sound_hole_scales sound_hole_inner_scales note_head_scales
      guitar_string_width note_stem_width shapes_512_coords_doubled
    by simp
qed

text \<open>
  C5.  For every size each note glyph is a filled circle (the head) of diameter
  \<^verbatim>\<open>2 * (note_size // 2)\<close> with \<^verbatim>\<open>note_size = int(16 * scale)\<close> and a filled rectangle (the
  stem) reaching \<^verbatim>\<open>note_size\<close> above and \<^verbatim>\<open>note_size // 2\<close> below the head's centre line,
  both of colour \<open>(255, 107, 107)\<close>, opaque; but the stem is 4 pixels wide at every
  size, not \<^verbatim>\<open>4 * scale\<close>.  At size 1024 the glyphs are the circles
  \<open>(376, 336, 408, 368)\<close> and \<open>(616, 336, 648, 368)\<close> with the stems
  \<open>(406, 320, 410, 368)\<close> and \<open>(646, 320, 650, 368)\<close>, 4 pixels wide where
  \<^verbatim>\<open>int(4 * scale)\<close> is 8.
\<close>

theorem note_glyph_stem_width:
  "shape_fill (note_head sz pos) = (255, 107, 107, 255) \<and>
   shape_fill (note_stem sz pos) = (255, 107, 107, 255) \<and>
   box_width (shape_box (note_head sz pos)) = 2 * (int_scaled 16 sz div 2) \<and>
   box_height (shape_box (note_head sz pos)) = 2 * (int_scaled 16 sz div 2) \<and>
   box_height (shape_box (note_stem sz pos)) = int_scaled 16 sz + int_scaled 16 sz div 2 \<and>
   box_width (shape_box (note_stem sz pos)) = 4 \<and>
   map (note_head 1024) note_positions =
     [Ellipse (376, 336, 408, 368) (255, 107, 107, 255),
      Ellipse (616, 336, 648, 368) (255, 107, 107, 255)] \<and>
   map (note_stem 1024) note_positions =
     [Rectangle (406, 320, 410, 368) (255, 107, 107, 255),
      Rectangle (646, 320, 650, 368) (255, 107, 107, 255)] \<and>
   int_scaled 16 1024 = 32 \<and> int_scaled 4 1024 = 8"
proof -
  obtain x y where pos: "pos = (x, y)" by (cases pos)
  have "map (note_head 1024) note_positions =
     [Ellipse (376, 336, 408, 368) (255, 107, 107, 255),
      Ellipse (616, 336, 648, 368) (255, 107, 107, 255)]"
    by (simp add: note_positions_def note_head_def int_scaled_def)
  moreover have "map (note_stem 1024) note_positions =
     [Rectangle (406, 320, 410, 368) (255, 107, 107, 255),
      Rectangle (646, 320, 650, 368) (255, 107, 107, 255)]"
    by (simp add: note_positions_def note_stem_def int_scaled_def)
  moreover have "int_scaled 16 1024 = 32 \<and> int_scaled 4 1024 = 8"
    by (simp add: int_scaled_def)
  ultimately show ?thesis
    by (simp add: pos note_head_def note_stem_def Let_def)
qed

section \<open>The sound hole\<close>




















end
